theory Spec2Isabelle
  imports Main
begin

section \<open>The threading primitives WorkThread is built on\<close>

text \<open>
  \<^verbatim>\<open>WorkThread.py\<close> delegates to two classes of Python's standard library,
  \<^verbatim>\<open>threading.Event\<close> and \<^verbatim>\<open>threading.Thread\<close>. They are modelled by their documented
  behaviour, as far as the class uses them.

  An event is its internal flag: a new event is unset, \<^verbatim>\<open>set()\<close> makes the flag true,
  \<^verbatim>\<open>clear()\<close> makes it false, \<^verbatim>\<open>is_set()\<close> reads it.
\<close>

type_synonym event = bool

definition Event_new :: event where
  "Event_new = False"

definition Event_set :: "event \<Rightarrow> event" where
  "Event_set e = True"

definition Event_clear :: "event \<Rightarrow> event" where
  "Event_clear e = False"

definition Event_is_set :: "event \<Rightarrow> bool" where
  "Event_is_set e = e"

text \<open>
  A thread object is created unstarted. \<^verbatim>\<open>Thread.start()\<close> may be called once: it starts the
  activity, and raises \<^verbatim>\<open>RuntimeError\<close> on a thread object that was started before.
  \<^verbatim>\<open>is_alive()\<close> is true from the moment the activity starts until its \<^verbatim>\<open>run()\<close> terminates.
  The end of the activity is an event of the worker's side, \<open>Thread_finish\<close>; it can only
  happen to a started thread. A thread that is alive and not a daemon keeps the process
  from exiting.
\<close>

datatype py_error = RuntimeError | TypeError

datatype thread_phase = Unstarted | Alive | Finished

record thread =
  target :: string
  daemon :: bool
  phase :: thread_phase

definition Thread_new :: "string \<Rightarrow> bool \<Rightarrow> thread" where
  "Thread_new tgt dmn = \<lparr>target = tgt, daemon = dmn, phase = Unstarted\<rparr>"

definition Thread_start :: "thread \<Rightarrow> py_error + thread" where
  "Thread_start th =
     (if phase th = Unstarted then Inr (th\<lparr>phase := Alive\<rparr>) else Inl RuntimeError)"

definition Thread_is_alive :: "thread \<Rightarrow> bool" where
  "Thread_is_alive th = (phase th = Alive)"

definition Thread_finish :: "thread \<Rightarrow> thread" where
  "Thread_finish th = (if phase th = Alive then th\<lparr>phase := Finished\<rparr> else th)"

definition Thread_blocks_exit :: "thread \<Rightarrow> bool" where
  "Thread_blocks_exit th = (Thread_is_alive th \<and> \<not> daemon th)"

section \<open>The class WorkThread\<close>

text \<open>
  The fields of an instance, as \<^verbatim>\<open>__init__\<close> assigns them. The solver and the puzzle
  board are references the class stores and never inspects, so their types are parameters.
\<close>

record ('s, 'b) work_thread =
  solver :: 's
  pb :: 'b
  threadHandle :: thread
  showResultsEvent :: event
  resumeEvent :: event
  cancelEvent :: event

text \<open>\<^verbatim>\<open>codeToRunInThread\<close> of the base class: its body is \<^verbatim>\<open>pass\<close>.\<close>

definition codeToRunInThread :: "('s, 'b) work_thread \<Rightarrow> ('s, 'b) work_thread" where
  "codeToRunInThread self = self"

text \<open>\<^verbatim>\<open>__init__\<close>: the thread is created with the work body as target and
  \<^verbatim>\<open>daemon=True\<close>; each event is created and then cleared.\<close>

definition WorkThread_init :: "'s \<Rightarrow> 'b \<Rightarrow> ('s, 'b) work_thread" where
  "WorkThread_init solver_arg puzzleBoard =
     \<lparr>solver = solver_arg,
      pb = puzzleBoard,
      threadHandle = Thread_new ''codeToRunInThread'' True,
      showResultsEvent = Event_clear Event_new,
      resumeEvent = Event_clear Event_new,
      cancelEvent = Event_clear Event_new\<rparr>"

definition cancelWorkThread :: "('s, 'b) work_thread \<Rightarrow> ('s, 'b) work_thread" where
  "cancelWorkThread self = self\<lparr>cancelEvent := Event_set (cancelEvent self)\<rparr>"

definition start :: "('s, 'b) work_thread \<Rightarrow> py_error + ('s, 'b) work_thread" where
  "start self =
     (case Thread_start (threadHandle self) of
        Inl e \<Rightarrow> Inl e
      | Inr th \<Rightarrow> Inr (self\<lparr>threadHandle := th\<rparr>))"

definition isAlive :: "('s, 'b) work_thread \<Rightarrow> bool" where
  "isAlive self = Thread_is_alive (threadHandle self)"

definition supportsCancelRequest :: "('s, 'b) work_thread \<Rightarrow> bool" where
  "supportsCancelRequest self = False"

text \<open>\<^verbatim>\<open>timerHandler\<close> returns its result together with the instance it leaves behind.\<close>

definition timerHandler ::
  "('s, 'b) work_thread \<Rightarrow> 'w \<Rightarrow> bool \<times> ('s, 'b) work_thread" where
  "timerHandler self parentWindow = (False, self)"

section \<open>The life of an instance\<close>

text \<open>
  What can happen to an instance: the controller calls one of the methods, or the
  worker's activity comes to its end (the work body returns). The work body runs inside
  the started thread; for the base class it is \<open>codeToRunInThread\<close>. A call that raises
  leaves the instance as it was.
\<close>

datatype 'w call =
    CancelWorkThread
  | Start
  | IsAlive
  | SupportsCancelRequest
  | TimerHandler 'w
  | WorkerReturns

fun step :: "'w call \<Rightarrow> ('s, 'b) work_thread \<Rightarrow> ('s, 'b) work_thread" where
  "step CancelWorkThread self = cancelWorkThread self"
| "step Start self = (case start self of Inl e \<Rightarrow> self | Inr self' \<Rightarrow> self')"
| "step IsAlive self = self"
| "step SupportsCancelRequest self = self"
| "step (TimerHandler w) self = snd (timerHandler self w)"
| "step WorkerReturns self =
     (if isAlive self
      then (codeToRunInThread self)\<lparr>threadHandle := Thread_finish (threadHandle self)\<rparr>
      else self)"

definition calls :: "'w call list \<Rightarrow> ('s, 'b) work_thread \<Rightarrow> ('s, 'b) work_thread" where
  "calls cs self = fold step cs self"

text \<open>
  The number of activities a sequence of events spawns: a call of \<open>start\<close> that returns
  normally spawns one, a call that raises spawns none, and nothing else spawns any.
\<close>

fun spawns :: "'w call \<Rightarrow> ('s, 'b) work_thread \<Rightarrow> nat" where
  "spawns Start self = (case start self of Inl e \<Rightarrow> 0 | Inr self' \<Rightarrow> 1)"
| "spawns c self = 0"

fun spawned :: "'w call list \<Rightarrow> ('s, 'b) work_thread \<Rightarrow> nat" where
  "spawned [] self = 0"
| "spawned (c # cs) self = spawns c self + spawned cs (step c self)"

section \<open>Instantiating a subclass\<close>

text \<open>
  Python refuses to instantiate a class, with \<^verbatim>\<open>TypeError\<close>, when the class has abstract
  methods left. The metaclass \<^verbatim>\<open>ABCMeta\<close> computes them: the methods decorated with
  \<^verbatim>\<open>abc.abstractmethod\<close> that the class does not override. Under the plain metaclass
  \<^verbatim>\<open>type\<close> the decorator only marks the function, and no class has abstract methods.
  The source declares \<^verbatim>\<open>class WorkThread():\<close>, with no base class and no metaclass, and
  decorates \<^verbatim>\<open>codeToRunInThread\<close>. \<open>subclass_new\<close> is the instantiation of a subclass
  \<^verbatim>\<open>class T(WorkThread)\<close> that overrides the methods named and inherits \<^verbatim>\<open>__init__\<close>.
\<close>

datatype metaclass = PlainType | ABCMeta

definition WorkThread_metaclass :: metaclass where
  "WorkThread_metaclass = PlainType"

definition WorkThread_decorated :: "string list" where
  "WorkThread_decorated = [''codeToRunInThread'']"

fun abstractmethods :: "metaclass \<Rightarrow> string list \<Rightarrow> string list \<Rightarrow> string list" where
  "abstractmethods ABCMeta decorated overridden = filter (\<lambda>m. m \<notin> set overridden) decorated"
| "abstractmethods PlainType decorated overridden = []"

definition subclass_new ::
  "string list \<Rightarrow> 's \<Rightarrow> 'b \<Rightarrow> py_error + ('s, 'b) work_thread" where
  "subclass_new overridden solver_arg puzzleBoard =
     (if abstractmethods WorkThread_metaclass WorkThread_decorated overridden = []
      then Inr (WorkThread_init solver_arg puzzleBoard)
      else Inl TypeError)"

section \<open>How the thread's phase moves\<close>

lemma phase_init [simp]: "phase (threadHandle (WorkThread_init sv b)) = Unstarted"
  by (simp add: WorkThread_init_def Thread_new_def)

lemma isAlive_phase: "isAlive self = (phase (threadHandle self) = Alive)"
  by (simp add: isAlive_def Thread_is_alive_def)

lemma start_phase:
  "start self = (if phase (threadHandle self) = Unstarted
                 then Inr (self\<lparr>threadHandle := (threadHandle self)\<lparr>phase := Alive\<rparr>\<rparr>)
                 else Inl RuntimeError)"
  by (simp add: start_def Thread_start_def)

lemma step_phase:
  "phase (threadHandle (step c self)) =
     (case c of
        Start \<Rightarrow> (if phase (threadHandle self) = Unstarted then Alive
                  else phase (threadHandle self))
      | WorkerReturns \<Rightarrow> (if phase (threadHandle self) = Alive then Finished
                          else phase (threadHandle self))
      | _ \<Rightarrow> phase (threadHandle self))"
  by (cases c)
     (simp_all add: cancelWorkThread_def start_phase timerHandler_def isAlive_phase
        codeToRunInThread_def Thread_finish_def)

lemma calls_Nil [simp]: "calls [] self = self"
  by (simp add: calls_def)

lemma calls_Cons [simp]: "calls (c # cs) self = calls cs (step c self)"
  by (simp add: calls_def)

lemma calls_append [simp]: "calls (cs @ ds) self = calls ds (calls cs self)"
  by (simp add: calls_def)

lemma unstarted_kept:
  "Start \<notin> set cs \<Longrightarrow> phase (threadHandle self) = Unstarted
   \<Longrightarrow> phase (threadHandle (calls cs self)) = Unstarted"
proof (induction cs arbitrary: self)
  case Nil
  then show ?case by simp
next
  case (Cons c cs)
  from Cons.prems have "phase (threadHandle (step c self)) = Unstarted"
    by (auto simp add: step_phase split: call.splits)
  with Cons show ?case by simp
qed

lemma alive_kept:
  "WorkerReturns \<notin> set cs \<Longrightarrow> phase (threadHandle self) = Alive
   \<Longrightarrow> phase (threadHandle (calls cs self)) = Alive"
proof (induction cs arbitrary: self)
  case Nil
  then show ?case by simp
next
  case (Cons c cs)
  from Cons.prems have "phase (threadHandle (step c self)) = Alive"
    by (auto simp add: step_phase split: call.splits)
  with Cons show ?case by simp
qed

lemma finished_kept:
  "phase (threadHandle self) = Finished
   \<Longrightarrow> phase (threadHandle (calls cs self)) = Finished"
proof (induction cs arbitrary: self)
  case Nil
  then show ?case by simp
next
  case (Cons c cs)
  from Cons.prems have "phase (threadHandle (step c self)) = Finished"
    by (simp add: step_phase split: call.splits)
  with Cons show ?case by simp
qed

lemma started_kept:
  "phase (threadHandle self) \<noteq> Unstarted
   \<Longrightarrow> phase (threadHandle (calls cs self)) \<noteq> Unstarted"
proof (induction cs arbitrary: self)
  case Nil
  then show ?case by simp
next
  case (Cons c cs)
  from Cons.prems have "phase (threadHandle (step c self)) \<noteq> Unstarted"
    by (simp add: step_phase split: call.splits)
  with Cons show ?case by simp
qed

lemma step_cancelEvent:
  "cancelEvent self \<Longrightarrow> cancelEvent (step c self)"
  by (cases c)
     (simp_all add: cancelWorkThread_def Event_set_def start_phase timerHandler_def
        codeToRunInThread_def)

lemma cancelEvent_kept:
  "cancelEvent self \<Longrightarrow> cancelEvent (calls cs self)"
  by (induction cs arbitrary: self) (simp_all add: step_cancelEvent)

lemma step_daemon:
  "daemon (threadHandle (step c self)) = daemon (threadHandle self)"
  by (cases c)
     (simp_all add: cancelWorkThread_def start_phase timerHandler_def
        codeToRunInThread_def Thread_finish_def)

lemma daemon_kept:
  "daemon (threadHandle (calls cs self)) = daemon (threadHandle self)"
  by (induction cs arbitrary: self) (simp_all add: step_daemon)

lemma spawned_no_start:
  "Start \<notin> set cs \<Longrightarrow> spawned cs self = 0"
proof (induction cs arbitrary: self)
  case Nil
  show ?case by simp
next
  case (Cons c cs)
  from Cons.prems have "spawns c self = 0"
    by (cases c) simp_all
  with Cons show ?case by simp
qed

lemma spawned_after_start:
  "phase (threadHandle self) \<noteq> Unstarted \<Longrightarrow> spawned cs self = 0"
proof (induction cs arbitrary: self)
  case Nil
  show ?case by simp
next
  case (Cons c cs)
  from Cons.prems have none: "spawns c self = 0"
    by (cases c) (simp_all add: start_phase)
  from Cons.prems have "phase (threadHandle (step c self)) \<noteq> Unstarted"
    using started_kept [of self "[c]"] by simp
  with Cons.IH none show ?case by simp
qed

lemma spawned_le_1: "spawned cs self \<le> Suc 0"
proof (induction cs arbitrary: self)
  case Nil
  show ?case by simp
next
  case (Cons c cs)
  show ?case
  proof (cases "spawns c self = 0")
    case True
    with Cons.IH [of "step c self"] show ?thesis by simp
  next
    case False
    then have c: "c = Start" and un: "phase (threadHandle self) = Unstarted"
      by (cases c; simp add: start_phase split: if_splits)+
    then have "phase (threadHandle (step c self)) \<noteq> Unstarted"
      by (simp add: start_phase)
    then have "spawned cs (step c self) = 0"
      by (rule spawned_after_start)
    with c un show ?thesis by (simp add: start_phase)
  qed
qed

lemma calls_start_alive:
  assumes "phase (threadHandle self) = Unstarted" and "WorkerReturns \<notin> set ds"
  shows "phase (threadHandle (calls (Start # ds) self)) = Alive"
  unfolding calls_Cons
  by (rule alive_kept) (simp_all add: assms start_phase)

lemma calls_start_started:
  "phase (threadHandle (calls (Start # ds) self)) \<noteq> Unstarted"
  unfolding calls_Cons
  by (rule started_kept) (simp add: start_phase)

lemma calls_return_finished:
  assumes "phase (threadHandle self) \<noteq> Unstarted"
  shows "phase (threadHandle (calls (WorkerReturns # es) self)) = Finished"
  unfolding calls_Cons
proof (rule finished_kept)
  from assms show "phase (threadHandle (step WorkerReturns self)) = Finished"
    by (cases "phase (threadHandle self)")
       (simp_all add: isAlive_phase codeToRunInThread_def Thread_finish_def)
qed

section \<open>Cancellation\<close>

text \<open>
  C1. The cancel signal is monotonic. Once \<open>cancelEvent\<close> is set, it is still set after
  any sequence of method calls and worker events, so no operation of the class clears it;
  \<open>cancelWorkThread\<close> sets it; and a second call of \<open>cancelWorkThread\<close> changes nothing.
\<close>
theorem cancel_monotonic:
  "(Event_is_set (cancelEvent self) \<longrightarrow> Event_is_set (cancelEvent (calls cs self)))
   \<and> Event_is_set (cancelEvent (cancelWorkThread self))
   \<and> cancelWorkThread (cancelWorkThread self) = cancelWorkThread self"
  by (simp add: Event_is_set_def cancelEvent_kept cancelWorkThread_def Event_set_def)

theorem cancel_monotonic_witness:
  "Event_is_set (cancelEvent (cancelWorkThread (WorkThread_init () ())))
   \<and> Event_is_set (cancelEvent
        (calls [Start, TimerHandler (), WorkerReturns, CancelWorkThread, Start, IsAlive]
           (cancelWorkThread (WorkThread_init () ()))))"
  using cancel_monotonic
    [of "cancelWorkThread (WorkThread_init () ())"
        "[Start, TimerHandler (), WorkerReturns, CancelWorkThread, Start, IsAlive]"]
  by (simp add: Event_is_set_def cancelWorkThread_def Event_set_def)

section \<open>Construction\<close>

text \<open>
  C3. For every solver and puzzle board, the constructor leaves the three events unset,
  stores both arguments, and prepares a thread whose target is the work body without
  starting it: the new instance is not alive, and as long as \<open>start\<close> is not called the
  thread stays unstarted and nothing is spawned.
\<close>
theorem init_signals_unset_thread_unstarted:
  "\<not> Event_is_set (showResultsEvent (WorkThread_init sv b))
   \<and> \<not> Event_is_set (resumeEvent (WorkThread_init sv b))
   \<and> \<not> Event_is_set (cancelEvent (WorkThread_init sv b))
   \<and> solver (WorkThread_init sv b) = sv
   \<and> pb (WorkThread_init sv b) = b
   \<and> target (threadHandle (WorkThread_init sv b)) = ''codeToRunInThread''
   \<and> phase (threadHandle (WorkThread_init sv b)) = Unstarted
   \<and> \<not> isAlive (WorkThread_init sv b)
   \<and> (Start \<notin> set cs \<longrightarrow>
        phase (threadHandle (calls cs (WorkThread_init sv b))) = Unstarted
        \<and> spawned cs (WorkThread_init sv b) = 0)"
proof -
  have "Start \<notin> set cs \<Longrightarrow>
        phase (threadHandle (calls cs (WorkThread_init sv b))) = Unstarted"
    by (rule unstarted_kept) simp_all
  then show ?thesis
    by (simp add: spawned_no_start isAlive_phase)
       (simp add: WorkThread_init_def Event_is_set_def Event_clear_def Thread_new_def)
qed

theorem init_signals_unset_thread_unstarted_witness:
  "Start \<notin> set [CancelWorkThread, IsAlive, TimerHandler (), WorkerReturns]
   \<and> phase (threadHandle (calls [CancelWorkThread, IsAlive, TimerHandler (), WorkerReturns]
        (WorkThread_init (1::nat) (2::nat)))) = Unstarted
   \<and> spawned [CancelWorkThread, IsAlive, TimerHandler (), WorkerReturns]
        (WorkThread_init (1::nat) (2::nat)) = 0"
  using init_signals_unset_thread_unstarted
    [of "1::nat" "2::nat" "[CancelWorkThread, IsAlive, TimerHandler (), WorkerReturns]"]
  by simp


section \<open>Liveness\<close>

text \<open>
  C4. \<open>isAlive\<close> is a query that changes nothing. From construction on it is false as
  long as \<open>start\<close> has not been called; it is true right after the first \<open>start\<close>; it stays
  true while the work body has not returned; and once the work body has returned it is
  false, whatever is called afterwards.
\<close>
theorem isAlive_from_start_until_return:
  "(Start \<notin> set cs \<longrightarrow> \<not> isAlive (calls cs (WorkThread_init sv b)))
   \<and> (Start \<notin> set cs \<longrightarrow> isAlive (calls (cs @ [Start]) (WorkThread_init sv b)))
   \<and> (Start \<notin> set cs \<and> WorkerReturns \<notin> set ds \<longrightarrow>
        isAlive (calls (cs @ Start # ds) (WorkThread_init sv b)))
   \<and> (Start \<notin> set cs \<longrightarrow>
        \<not> isAlive (calls (cs @ Start # ds @ WorkerReturns # es) (WorkThread_init sv b)))
   \<and> step IsAlive self = self"
proof -
  let ?s = "calls cs (WorkThread_init sv b)"
  have un: "phase (threadHandle ?s) = Unstarted" if "Start \<notin> set cs"
    using that by (intro unstarted_kept) simp_all
  have split1: "calls (cs @ [Start]) (WorkThread_init sv b) = calls [Start] ?s"
    and split2: "calls (cs @ Start # ds) (WorkThread_init sv b) = calls (Start # ds) ?s"
    and split3: "calls (cs @ Start # ds @ WorkerReturns # es) (WorkThread_init sv b)
                 = calls (WorkerReturns # es) (calls (Start # ds) ?s)"
    by simp_all
  have "phase (threadHandle (calls [Start] ?s)) = Alive" if "Start \<notin> set cs"
    using un [OF that] by (intro calls_start_alive) simp_all
  moreover have "phase (threadHandle (calls (Start # ds) ?s)) = Alive"
    if "Start \<notin> set cs" "WorkerReturns \<notin> set ds"
    using un [OF that(1)] that(2) by (rule calls_start_alive)
  moreover have "phase (threadHandle (calls (WorkerReturns # es) (calls (Start # ds) ?s)))
                 = Finished"
    by (intro calls_return_finished calls_start_started)
  ultimately show ?thesis
    unfolding split1 split2 split3 isAlive_phase using un by simp
qed

theorem isAlive_from_start_until_return_witness:
  "Start \<notin> set [CancelWorkThread, TimerHandler ()]
   \<and> WorkerReturns \<notin> set [IsAlive, CancelWorkThread, Start]
   \<and> \<not> isAlive (calls [CancelWorkThread, TimerHandler ()] (WorkThread_init (1::nat) (2::nat)))
   \<and> isAlive (calls ([CancelWorkThread, TimerHandler ()] @ [Start])
         (WorkThread_init (1::nat) (2::nat)))
   \<and> isAlive (calls ([CancelWorkThread, TimerHandler ()] @ Start # [IsAlive, CancelWorkThread, Start])
         (WorkThread_init (1::nat) (2::nat)))
   \<and> \<not> isAlive (calls ([CancelWorkThread, TimerHandler ()] @ Start #
           [IsAlive, CancelWorkThread, Start] @ WorkerReturns # [Start, IsAlive])
         (WorkThread_init (1::nat) (2::nat)))"
  using isAlive_from_start_until_return
    [of "[CancelWorkThread, TimerHandler ()]" "1::nat" "2::nat"
        "[IsAlive, CancelWorkThread, Start]" "[Start, IsAlive]"]
  by (simp add: isAlive_phase start_phase cancelWorkThread_def timerHandler_def
        codeToRunInThread_def Thread_finish_def)

section \<open>The frame of the default methods\<close>

text \<open>
  C5. \<open>cancelWorkThread\<close> sets \<open>cancelEvent\<close> and does nothing else: the other two events,
  the solver, the puzzle board and the thread handle are unchanged, and it does not wait
  for the worker, whose liveness is the same after the call as before.
\<close>
theorem cancelWorkThread_frame:
  "cancelWorkThread self = self\<lparr>cancelEvent := True\<rparr>
   \<and> Event_is_set (cancelEvent (cancelWorkThread self))
   \<and> showResultsEvent (cancelWorkThread self) = showResultsEvent self
   \<and> resumeEvent (cancelWorkThread self) = resumeEvent self
   \<and> solver (cancelWorkThread self) = solver self
   \<and> pb (cancelWorkThread self) = pb self
   \<and> threadHandle (cancelWorkThread self) = threadHandle self
   \<and> isAlive (cancelWorkThread self) = isAlive self"
  by (simp add: cancelWorkThread_def Event_set_def Event_is_set_def isAlive_def)

text \<open>
  C6. The default \<open>supportsCancelRequest\<close> returns false for every instance, in every state.
\<close>

theorem supportsCancelRequest_false: "supportsCancelRequest self = False"
  by (simp add: supportsCancelRequest_def)

text \<open>
  C7. The default \<open>timerHandler\<close> returns false for every parent window and every state of
  the instance, and leaves the instance as it was.
\<close>
theorem timerHandler_default:
  "timerHandler self parentWindow = (False, self)
   \<and> step (TimerHandler parentWindow) self = self"
  by (simp add: timerHandler_def)

section \<open>A subclass without a work body\<close>

text \<open>
  C8. A subclass that overrides none of the work body should fail loudly. What the code
  does: such a subclass is instantiated without an error, \<open>start\<close> returns normally, and
  the inherited empty body runs to its end, leaving the instance unchanged but for the
  finished thread.
\<close>
theorem subclass_without_work_body_runs_silently:
  "subclass_new [] sv b = Inr (WorkThread_init sv b)
   \<and> start (WorkThread_init sv b)
       = Inr ((WorkThread_init sv b)
               \<lparr>threadHandle := (threadHandle (WorkThread_init sv b))\<lparr>phase := Alive\<rparr>\<rparr>)
   \<and> calls [Start, WorkerReturns] (WorkThread_init sv b)
       = (WorkThread_init sv b)
           \<lparr>threadHandle := (threadHandle (WorkThread_init sv b))\<lparr>phase := Finished\<rparr>\<rparr>"
  by (simp add: subclass_new_def WorkThread_metaclass_def start_phase isAlive_phase
        codeToRunInThread_def Thread_finish_def)

section \<open>Starting twice\<close>

text \<open>
  C9. After a call of \<open>start\<close> that returned normally, every later call of \<open>start\<close> raises
  \<^verbatim>\<open>RuntimeError\<close> and spawns nothing, whatever happened in between. The class adds no
  guard of its own: \<open>start\<close> raises exactly when the thread's own \<^verbatim>\<open>start()\<close> does. Over the
  whole life of an instance at most one activity is spawned.
\<close>
theorem second_start_raises:
  "(start self = Inr self' \<longrightarrow>
      start (calls cs self') = Inl RuntimeError \<and> spawned cs self' = 0
      \<and> calls (Start # cs) self = calls cs self')
   \<and> (start self = Inl e) = (Thread_start (threadHandle self) = Inl e)
   \<and> spawned cs (WorkThread_init sv b) \<le> 1"
proof -
  have "start (calls cs self') = Inl RuntimeError \<and> spawned cs self' = 0"
    if "start self = Inr self'"
  proof -
    from that have "phase (threadHandle self') \<noteq> Unstarted"
      by (auto simp add: start_phase split: if_splits)
    then show ?thesis
      using started_kept [of self' cs] by (simp add: start_phase spawned_after_start)
  qed
  moreover have "(start self = Inl e) = (Thread_start (threadHandle self) = Inl e)"
    by (simp add: start_def split: sum.splits)
  ultimately show ?thesis
    by (simp add: spawned_le_1)
qed

theorem second_start_raises_witness:
  "start (WorkThread_init (1::nat) (2::nat))
     = Inr ((WorkThread_init (1::nat) (2::nat))
             \<lparr>threadHandle :=
                (threadHandle (WorkThread_init (1::nat) (2::nat)))\<lparr>phase := Alive\<rparr>\<rparr>)
   \<and> start (calls [IsAlive, WorkerReturns, TimerHandler ()]
        ((WorkThread_init (1::nat) (2::nat))
             \<lparr>threadHandle :=
                (threadHandle (WorkThread_init (1::nat) (2::nat)))\<lparr>phase := Alive\<rparr>\<rparr>))
       = Inl RuntimeError"
  using second_start_raises
    [of "WorkThread_init (1::nat) (2::nat)"
        "(WorkThread_init (1::nat) (2::nat))
             \<lparr>threadHandle :=
                (threadHandle (WorkThread_init (1::nat) (2::nat)))\<lparr>phase := Alive\<rparr>\<rparr>"
        "[IsAlive, WorkerReturns, TimerHandler ()]"]
  by (simp add: start_phase)

section \<open>The daemon flag\<close>

text \<open>
  C10. The thread prepared by the constructor has the daemon flag set, no operation
  changes the flag, and so the thread never keeps the process from exiting.
\<close>
theorem thread_is_daemon:
  "daemon (threadHandle (WorkThread_init sv b))
   \<and> daemon (threadHandle (calls cs (WorkThread_init sv b)))
   \<and> \<not> Thread_blocks_exit (threadHandle (calls cs (WorkThread_init sv b)))"
  by (simp add: daemon_kept Thread_blocks_exit_def)
     (simp add: WorkThread_init_def Thread_new_def)

end
